theory Spec2Isabelle
  imports Main "HOL-Library.Sublist"
begin

section \<open>The dist verifier of coolchatty (scripts/verify-dist.mjs)\<close>

text \<open>
  The script checks, from the current working directory, that a build left
  \<^verbatim>\<open>dist/\<close>, \<^verbatim>\<open>dist/index.html\<close> and at least one entry of \<^verbatim>\<open>dist/assets\<close> whose name
  ends in \<^verbatim>\<open>.js\<close>. It calls three library functions of Node (\<^verbatim>\<open>path.resolve\<close>,
  which asks for \<^verbatim>\<open>process.cwd()\<close>, \<^verbatim>\<open>fs.access\<close>, \<^verbatim>\<open>fs.readdir\<close>), prints with \<^verbatim>\<open>console.log\<close> and \<^verbatim>\<open>console.error\<close>, and
  sets \<^verbatim>\<open>process.exitCode\<close>. The embedding passes the state of the process and of the
  file system explicitly; an exception is the left summand of a result.
\<close>

subsection \<open>The file system the script runs against\<close>

text \<open>
  A file system is a tree: a node is a plain file or a directory. A directory carries
  the two permission bits that matter to the calls the script makes, as they apply to
  the calling process (read: its names may be listed; search: its entries may be
  reached), and its entries in the order a directory read returns them. Symbolic
  links, devices and time stamps are left out.
\<close>

datatype node = File | Dir bool bool "(string \<times> node) list"

datatype fs_errno = ENOENT | ENOTDIR | EACCES

text \<open>The first entry of a directory listing with the given name.\<close>

fun lookup_entry :: "(string \<times> node) list \<Rightarrow> string \<Rightarrow> node option" where
  "lookup_entry [] c = None"
| "lookup_entry ((name, n) # es) c = (if name = c then Some n else lookup_entry es c)"

text \<open>
  Path lookup from the root, one component at a time: a component under a plain file is
  \<^verbatim>\<open>ENOTDIR\<close>, under a directory without search permission \<^verbatim>\<open>EACCES\<close>, and a name the
  directory does not have is \<^verbatim>\<open>ENOENT\<close>.
\<close>

function walk :: "node \<Rightarrow> string list \<Rightarrow> fs_errno + node" where
  "walk n [] = Inr n"
| "walk File (c # cs) = Inl ENOTDIR"
| "walk (Dir r x es) (c # cs) =
     (if \<not> x then Inl EACCES
      else (case lookup_entry es c of
              None \<Rightarrow> Inl ENOENT
            | Some n' \<Rightarrow> walk n' cs))"
  by pat_completeness auto
termination
proof (relation "measure (\<lambda>(n, cs). size n)")
  have smaller: "size n < Suc (size_list (size_prod (\<lambda>_. 0) size) es)"
    if "lookup_entry es c = Some n" for es c and n :: node
    using that by (induction es) (auto split: if_splits)
  fix r x es c cs n'
  assume "lookup_entry es c = Some n'"
  then show "((n', cs), (Dir r x es, c # cs)) \<in> measure (\<lambda>(n, cs). size n)"
    using smaller [of es c n'] by simp
qed simp

text \<open>
  Where a path leads, permissions apart: what \<^verbatim>\<open>getcwd\<close> needs of the working directory
  is that it is still there.
\<close>

function locate :: "node \<Rightarrow> string list \<Rightarrow> node option" where
  "locate n [] = Some n"
| "locate File (c # cs) = None"
| "locate (Dir r x es) (c # cs) =
     (case lookup_entry es c of
        None \<Rightarrow> None
      | Some n' \<Rightarrow> locate n' cs)"
  by pat_completeness auto
termination
proof (relation "measure (\<lambda>(n, cs). size n)")
  have smaller: "size n < Suc (size_list (size_prod (\<lambda>_. 0) size) es)"
    if "lookup_entry es c = Some n" for es c and n :: node
    using that by (induction es) (auto split: if_splits)
  fix r x es c cs n'
  assume "lookup_entry es c = Some n'"
  then show "((n', cs), (Dir r x es, c # cs)) \<in> measure (\<lambda>(n, cs). size n)"
    using smaller [of es c n'] by simp
qed simp

subsection \<open>Paths (node:path, POSIX)\<close>

text \<open>JavaScript's \<^verbatim>\<open>s.split(d)\<close> for a one-character separator.\<close>

fun split_on :: "char \<Rightarrow> string \<Rightarrow> string list" where
  "split_on d [] = [[]]"
| "split_on d (c # cs) =
     (if c = d then [] # split_on d cs
      else (case split_on d cs of
              [] \<Rightarrow> [[c]]
            | s # ss \<Rightarrow> (c # s) # ss))"

fun join_with :: "string \<Rightarrow> string list \<Rightarrow> string" where
  "join_with d [] = []"
| "join_with d [s] = s"
| "join_with d (s # t # ss) = s @ d @ join_with d (t # ss)"

text \<open>
  Normalisation of the segments of a path, as \<^verbatim>\<open>normalizeString\<close> of Node does it: empty
  segments and \<^verbatim>\<open>.\<close> are dropped, \<^verbatim>\<open>..\<close> removes the segment before it; above the start of
  the path \<^verbatim>\<open>..\<close> is kept when \<open>allowAboveRoot\<close> holds (a relative path) and dropped otherwise.
  The accumulator holds the result so far, last segment first.
\<close>

fun normalize_segments :: "bool \<Rightarrow> string list \<Rightarrow> string list \<Rightarrow> string list" where
  "normalize_segments allowAboveRoot acc [] = rev acc"
| "normalize_segments allowAboveRoot acc (s # ss) =
     (if s = [] \<or> s = ''.'' then normalize_segments allowAboveRoot acc ss
      else if s = ''..'' then
        (case acc of
           [] \<Rightarrow> normalize_segments allowAboveRoot (if allowAboveRoot then [''..''] else []) ss
         | a # as \<Rightarrow>
             if a = ''..'' then normalize_segments allowAboveRoot (if allowAboveRoot then ''..'' # acc else acc) ss
             else normalize_segments allowAboveRoot as ss)
      else normalize_segments allowAboveRoot (s # acc) ss)"

text \<open>
  The loop of \<^verbatim>\<open>path.resolve\<close> over its arguments: they are read from the right, and
  reading stops at the first absolute path. The argument list here is in that reading
  order. The result is the path put together so far and whether it is absolute.
\<close>

fun resolve_prefix :: "string list \<Rightarrow> string \<times> bool" where
  "resolve_prefix [] = ([], False)"
| "resolve_prefix (p # ps) =
     (if p = [] then resolve_prefix ps
      else if hd p = CHR ''/'' then (p @ ''/'', True)
      else (case resolve_prefix ps of (q, absolute) \<Rightarrow> (q @ p @ ''/'', absolute)))"

text \<open>The end of \<^verbatim>\<open>path.resolve\<close>: the path is normalised and returned.\<close>

definition finish_resolve :: "string \<times> bool \<Rightarrow> string" where
  "finish_resolve pa =
     (case pa of
        (resolvedPath, resolvedAbsolute) \<Rightarrow>
          (let normalized = join_with ''/''
                 (normalize_segments (\<not> resolvedAbsolute) [] (split_on (CHR ''/'') resolvedPath))
           in if resolvedAbsolute then ''/'' @ normalized
              else if normalized \<noteq> [] then normalized else ''.''))"

text \<open>
  What \<^verbatim>\<open>path.resolve\<close> returns when \<^verbatim>\<open>process.cwd()\<close> is \<open>wd\<close>: the working directory
  is read last, after the arguments.
\<close>

definition resolve_in :: "string \<Rightarrow> string list \<Rightarrow> string" where
  "resolve_in wd args = finish_resolve (resolve_prefix (rev args @ [wd]))"

text \<open>The components of a path, for the lookup from the root.\<close>

definition components :: "string \<Rightarrow> string list" where
  "components p = filter (\<lambda>s. s \<noteq> []) (split_on (CHR ''/'') p)"

subsection \<open>The process and the calls it makes\<close>

datatype fs_call = Access string | Readdir string

datatype js_error = Error string

text \<open>
  The state a run works on: the file system and the working directory it is started in,
  the lines written to standard output and to the error stream (one element for each
  call of \<^verbatim>\<open>console.log\<close> or \<^verbatim>\<open>console.error\<close>, which writes its text and ends the line),
  \<^verbatim>\<open>process.exitCode\<close> (undefined until assigned), and, as a record of what was done,
  the file-system calls made so far.
\<close>

record world =
  fsys :: node
  cwd :: string
  stdout :: "string list"
  stderr :: "string list"
  exitCode :: "int option"
  calls :: "fs_call list"

definition start :: "node \<Rightarrow> string \<Rightarrow> world" where
  "start fs wd = \<lparr>fsys = fs, cwd = wd, stdout = [], stderr = [], exitCode = None, calls = []\<rparr>"

text \<open>The status the process ends with: \<^verbatim>\<open>process.exitCode\<close>, or 0 when it was never set.\<close>

definition exit_status :: "world \<Rightarrow> int" where
  "exit_status w = (case exitCode w of None \<Rightarrow> 0 | Some c \<Rightarrow> c)"

text \<open>
  The field \<open>cwd\<close> is a path that names the working directory of the process. Its
  segments, \<^verbatim>\<open>.\<close> and \<^verbatim>\<open>..\<close> resolved, say where the directory lies below the root, and
  \<^verbatim>\<open>process.cwd()\<close> returns the normal absolute path made of them. When no directory is
  there any more (the working directory has been removed), \<^verbatim>\<open>process.cwd()\<close> throws.
\<close>

definition working_directory :: "string \<Rightarrow> string list" where
  "working_directory wd = normalize_segments False [] (split_on (CHR ''/'') wd)"

definition cwd_path :: "string \<Rightarrow> string" where
  "cwd_path wd = ''/'' @ join_with ''/'' (working_directory wd)"

definition cwd_removed :: "node \<Rightarrow> string \<Rightarrow> bool" where
  "cwd_removed fs wd =
     (case locate fs (working_directory wd) of
        Some (Dir r x es) \<Rightarrow> False
      | Some File \<Rightarrow> True
      | None \<Rightarrow> True)"

definition process_cwd :: "world \<Rightarrow> js_error + string" where
  "process_cwd w =
     (if cwd_removed (fsys w) (cwd w)
      then Inl (Error ''ENOENT: no such file or directory, uv_cwd'')
      else Inr (cwd_path (cwd w)))"

text \<open>
  \<^verbatim>\<open>path.resolve(...args)\<close>: \<^verbatim>\<open>process.cwd()\<close> is called only when no argument is an
  absolute path, and its exception is that of \<^verbatim>\<open>resolve\<close>.
\<close>

definition resolve :: "string list \<Rightarrow> world \<Rightarrow> js_error + string" where
  "resolve args w =
     (case resolve_prefix (rev args) of
        (resolvedPath, resolvedAbsolute) \<Rightarrow>
          if resolvedAbsolute then Inr (finish_resolve (resolvedPath, True))
          else (case process_cwd w of
                  Inl e \<Rightarrow> Inl e
                | Inr path \<Rightarrow>
                    Inr (finish_resolve
                          (if path = [] then (resolvedPath, False)
                           else (path @ ''/'' @ resolvedPath, hd path = CHR ''/'')))))"

text \<open>
  \<^verbatim>\<open>fs.access(path)\<close> with the default mode: the path can be reached. \<^verbatim>\<open>fs.readdir(path)\<close>:
  the names of a directory that may be read. Both leave the file system as it is.
\<close>

definition access_result :: "node \<Rightarrow> string \<Rightarrow> fs_errno + unit" where
  "access_result fs path =
     (case walk fs (components path) of Inl e \<Rightarrow> Inl e | Inr n \<Rightarrow> Inr ())"

definition readdir_result :: "node \<Rightarrow> string \<Rightarrow> fs_errno + string list" where
  "readdir_result fs path =
     (case walk fs (components path) of
        Inl e \<Rightarrow> Inl e
      | Inr File \<Rightarrow> Inl ENOTDIR
      | Inr (Dir r x es) \<Rightarrow> if r then Inr (map fst es) else Inl EACCES)"

definition fs_access :: "string \<Rightarrow> world \<Rightarrow> (fs_errno + unit) \<times> world" where
  "fs_access path w = (access_result (fsys w) path, w\<lparr>calls := calls w @ [Access path]\<rparr>)"

definition fs_readdir :: "string \<Rightarrow> world \<Rightarrow> (fs_errno + string list) \<times> world" where
  "fs_readdir path w = (readdir_result (fsys w) path, w\<lparr>calls := calls w @ [Readdir path]\<rparr>)"

definition console_log :: "string \<Rightarrow> world \<Rightarrow> world" where
  "console_log s w = w\<lparr>stdout := stdout w @ [s]\<rparr>"

definition console_error :: "string \<Rightarrow> world \<Rightarrow> world" where
  "console_error s w = w\<lparr>stderr := stderr w @ [s]\<rparr>"

text \<open>
  \<^verbatim>\<open>s.endsWith(t)\<close>: the last \<open>length t\<close> characters of \<open>s\<close> are \<open>t\<close>; false when \<open>s\<close> is
  shorter than \<open>t\<close>. Characters are compared exactly.
\<close>

definition endsWith :: "string \<Rightarrow> string \<Rightarrow> bool" where
  "endsWith s t = (length t \<le> length s \<and> drop (length s - length t) s = t)"

subsection \<open>The script\<close>

text \<open>\<^verbatim>\<open>ensureExists\<close>: any failure of \<^verbatim>\<open>fs.access\<close> is replaced by the error of the script.\<close>

definition ensureExists :: "string \<Rightarrow> string \<Rightarrow> world \<Rightarrow> (js_error + unit) \<times> world" where
  "ensureExists path description w =
     (case fs_access path w of
        (Inl e, w') \<Rightarrow> (Inl (Error (''Missing '' @ description @ '' at '' @ path)), w')
      | (Inr u, w') \<Rightarrow> (Inr (), w'))"

text \<open>The loop \<^verbatim>\<open>for (const asset of assets) console.log(`  - ${asset}`)\<close>.\<close>

fun print_assets :: "string list \<Rightarrow> world \<Rightarrow> world" where
  "print_assets [] w = w"
| "print_assets (asset # rest) w = print_assets rest (console_log (''  - '' @ asset) w)"

definition main :: "world \<Rightarrow> (js_error + unit) \<times> world" where
  "main w =
     (case resolve [''.''] w of Inl e \<Rightarrow> (Inl e, w) | Inr root \<Rightarrow>
      case resolve [root, ''dist''] w of Inl e \<Rightarrow> (Inl e, w) | Inr distDir \<Rightarrow>
      case resolve [distDir, ''index.html''] w of Inl e \<Rightarrow> (Inl e, w) | Inr htmlPath \<Rightarrow>
      case ensureExists distDir ''dist directory'' w of
        (Inl e, w1) \<Rightarrow> (Inl e, w1)
      | (Inr u1, w1) \<Rightarrow>
      case ensureExists htmlPath ''dist/index.html'' w1 of
        (Inl e, w2) \<Rightarrow> (Inl e, w2)
      | (Inr u2, w2) \<Rightarrow>
      case resolve [distDir, ''assets''] w2 of Inl e \<Rightarrow> (Inl e, w2) | Inr assetsDir \<Rightarrow>
        (let (listing, w3) = fs_readdir assetsDir w2;
             assets = (case listing of Inl e \<Rightarrow> [] | Inr names \<Rightarrow> names)
         in if \<not> list_ex (\<lambda>file. endsWith file ''.js'') assets
            then (Inl (Error ''dist/assets is missing bundled JavaScript output''), w3)
            else (Inr (),
                  print_assets assets (console_log ''Prebuilt dist assets detected:'' w3))))"

text \<open>
  The top level: \<^verbatim>\<open>main().catch(...)\<close> prints the message of the error to the error
  stream and sets the exit code to 1.
\<close>

definition run :: "world \<Rightarrow> world" where
  "run w =
     (case main w of
        (Inl (Error message), w') \<Rightarrow> (console_error message w')\<lparr>exitCode := Some 1\<rparr>
      | (Inr u, w') \<Rightarrow> w')"

text \<open>
  The paths the script computes in a process with working directory \<open>wd\<close>, named as in
  \<^verbatim>\<open>main\<close>.
\<close>

definition root_path :: "string \<Rightarrow> string" where
  "root_path wd = resolve_in (cwd_path wd) [''.'']"

definition distDir :: "string \<Rightarrow> string" where
  "distDir wd = resolve_in (cwd_path wd) [root_path wd, ''dist'']"

definition htmlPath :: "string \<Rightarrow> string" where
  "htmlPath wd = resolve_in (cwd_path wd) [distDir wd, ''index.html'']"

definition assetsDir :: "string \<Rightarrow> string" where
  "assetsDir wd = resolve_in (cwd_path wd) [distDir wd, ''assets'']"

text \<open>
  The listing \<^verbatim>\<open>main\<close> holds in \<^verbatim>\<open>assets\<close>: what the directory read returns, or the empty
  array that \<^verbatim>\<open>.catch(() => [])\<close> puts in place of any failure.
\<close>

definition assets_listing :: "node \<Rightarrow> string \<Rightarrow> string list" where
  "assets_listing fs wd =
     (case readdir_result fs (assetsDir wd) of Inl e \<Rightarrow> [] | Inr names \<Rightarrow> names)"

text \<open>A name a directory entry can carry, other than \<^verbatim>\<open>.\<close> and \<^verbatim>\<open>..\<close>.\<close>

definition plain_name :: "string \<Rightarrow> bool" where
  "plain_name s = (s \<noteq> [] \<and> s \<noteq> ''.'' \<and> s \<noteq> ''..'' \<and> CHR ''/'' \<notin> set s)"

subsection \<open>Working directories used as examples\<close>

text \<open>
  Each example is a file system whose root holds the working directory \<^verbatim>\<open>/w\<close>; the
  first five are the scenarios A to E of the specification.
\<close>

definition project :: "(string \<times> node) list \<Rightarrow> node" where
  "project entries = Dir True True [(''w'', Dir True True entries)]"

definition folder :: "(string \<times> node) list \<Rightarrow> node" where
  "folder entries = Dir True True entries"

definition scenario_A :: node where
  "scenario_A = project []"

definition scenario_B :: node where
  "scenario_B = project [(''dist'', folder [(''assets'', folder [(''app.js'', File)])])]"

definition scenario_C :: node where
  "scenario_C = project [(''dist'', folder [(''index.html'', File)])]"

definition scenario_D :: node where
  "scenario_D = project [(''dist'', folder [(''index.html'', File),
                                          (''assets'', folder [(''style.css'', File)])])]"

definition scenario_E :: node where
  "scenario_E = project [(''dist'', folder [(''index.html'', File),
                                          (''assets'', folder [(''main.abc123.js'', File),
                                                              (''main.abc123.css'', File)])])]"

text \<open>A complete build in a working directory the process may not search.\<close>

definition locked_project :: node where
  "locked_project =
     Dir True True [(''w'', Dir True False
       [(''dist'', folder [(''index.html'', File), (''assets'', folder [(''app.js'', File)])])])]"

text \<open>An assets directory that holds a script but may not be read, and one that is a plain file.\<close>

definition unreadable_assets :: node where
  "unreadable_assets = project [(''dist'', folder [(''index.html'', File),
                                                 (''assets'', Dir False True [(''app.js'', File)])])]"

definition assets_is_file :: node where
  "assets_is_file = project [(''dist'', folder [(''index.html'', File), (''assets'', File)])]"

text \<open>Names that differ from the suffix in case or by a further character.\<close>

definition near_misses :: node where
  "near_misses = project [(''dist'', folder [(''index.html'', File),
                                           (''assets'', folder [(''Main.JS'', File), (''.jsx'', File)])])]"

text \<open>Entries of other kinds than the layout expects.\<close>

definition js_subdirectory :: node where
  "js_subdirectory = project [(''dist'', folder [(''index.html'', File),
                                               (''assets'', folder [(''bundle.js'', folder [])])])]"

definition hidden_js :: node where
  "hidden_js = project [(''dist'', folder [(''index.html'', File),
                                         (''assets'', folder [(''.js'', File)])])]"

definition dist_is_file :: node where
  "dist_is_file = project [(''dist'', File)]"

definition html_is_directory :: node where
  "html_is_directory = project [(''dist'', folder [(''index.html'', folder []),
                                                 (''assets'', folder [(''app.js'', File)])])]"

text \<open>A file system in which \<^verbatim>\<open>/w\<close> is no more, and a build that left an empty \<^verbatim>\<open>dist\<close>.\<close>

definition removed_project :: node where
  "removed_project = Dir True True []"

definition empty_dist :: node where
  "empty_dist = project [(''dist'', folder [])]"

section \<open>Properties\<close>

subsection \<open>Splitting, joining and normalising paths\<close>

lemma split_on_not_Nil: "split_on d s \<noteq> []"
  by (induction s) (auto split: list.splits)

lemma split_on_append: "split_on d (a @ d # b) = split_on d a @ split_on d b"
proof (induction a)
  case Nil
  show ?case by simp
next
  case (Cons c a)
  obtain s ss where "split_on d a = s # ss"
    using split_on_not_Nil [of d a] by (cases "split_on d a") auto
  with Cons show ?case by simp
qed

lemma split_on_no_sep: "d \<notin> set s \<Longrightarrow> split_on d s = [s]"
  by (induction s) auto

lemma split_on_sep_free: "t \<in> set (split_on d s) \<Longrightarrow> d \<notin> set t"
  by (induction s arbitrary: t) (auto split: if_splits list.splits)

lemma split_on_join:
  "segs \<noteq> [] \<Longrightarrow> \<forall>s \<in> set segs. d \<notin> set s \<Longrightarrow> split_on d (join_with [d] segs) = segs"
proof (induction "[d]" segs rule: join_with.induct)
  case 1
  then show ?case by simp
next
  case (2 s)
  then show ?case by (simp add: split_on_no_sep)
next
  case (3 s t ss)
  have "split_on d (s @ d # join_with [d] (t # ss)) = split_on d s @ split_on d (join_with [d] (t # ss))"
    by (rule split_on_append)
  with 3 show ?case by (simp add: split_on_no_sep)
qed

lemma normalize_segments_append:
  "normalize_segments b acc (xs @ ys) = normalize_segments b (rev (normalize_segments b acc xs)) ys"
  by (induction xs arbitrary: acc) (auto split: list.splits)

lemma normalize_segments_plain:
  "\<forall>s \<in> set ss. s \<noteq> [] \<and> s \<noteq> ''.'' \<and> s \<noteq> ''..'' \<Longrightarrow> normalize_segments b acc ss = rev acc @ ss"
  by (induction ss arbitrary: acc) auto

lemma normalize_segments_subset:
  "set (normalize_segments False acc ss) \<subseteq> set acc \<union> {s \<in> set ss. s \<noteq> [] \<and> s \<noteq> ''.'' \<and> s \<noteq> ''..''}"
proof (induction ss arbitrary: acc)
  case Nil
  show ?case by simp
next
  case (Cons s ss)
  show ?case
  proof (cases "s = [] \<or> s = ''.''")
    case True
    then show ?thesis using Cons [of acc] by auto
  next
    case False
    note ne = this
    show ?thesis
    proof (cases "s = ''..''")
      case True
      show ?thesis
      proof (cases acc)
        case Nil
        then show ?thesis using True Cons [of "[]"] by auto
      next
        case (Cons a as)
        then show ?thesis using True Cons.IH [of acc] Cons.IH [of as] by (auto split: if_splits)
      qed
    next
      case False
      then show ?thesis using ne Cons [of "s # acc"] by auto
    qed
  qed
qed

lemma normalize_split_plain:
  "\<forall>s \<in> set (normalize_segments False [] (split_on (CHR ''/'') p)). plain_name s"
proof
  fix s assume "s \<in> set (normalize_segments False [] (split_on (CHR ''/'') p))"
  then have "s \<in> set (split_on (CHR ''/'') p) \<and> s \<noteq> [] \<and> s \<noteq> ''.'' \<and> s \<noteq> ''..''"
    using normalize_segments_subset [of "[]" "split_on (CHR ''/'') p"] by auto
  then show "plain_name s"
    using split_on_sep_free [of s "CHR ''/''" p] by (simp add: plain_name_def)
qed

lemma split_on_abs_join:
  assumes "\<forall>s \<in> set M. plain_name s"
  shows "normalize_segments False [] (split_on (CHR ''/'') (''/'' @ join_with ''/'' M @ ''/'' @ rest))
         = normalize_segments False (rev M) (split_on (CHR ''/'') rest)"
proof -
  have sep: "\<forall>s \<in> set M. CHR ''/'' \<notin> set s" and pl: "\<forall>s \<in> set M. s \<noteq> [] \<and> s \<noteq> ''.'' \<and> s \<noteq> ''..''"
    using assms by (auto simp: plain_name_def)
  have a: "split_on (CHR ''/'') (''/'' @ join_with ''/'' M @ ''/'' @ rest)
        = [] # split_on (CHR ''/'') (join_with ''/'' M) @ split_on (CHR ''/'') rest"
    using split_on_append [of "CHR ''/''" "join_with ''/'' M" rest] by simp
  show ?thesis
  proof (cases "M = []")
    case True
    then show ?thesis using a by simp
  next
    case False
    then have "split_on (CHR ''/'') (join_with ''/'' M) = M"
      using split_on_join [of M "CHR ''/''"] sep by simp
    then show ?thesis
      using a pl by (simp add: normalize_segments_append normalize_segments_plain)
  qed
qed

lemma resolve_child:
  assumes "\<forall>s \<in> set M. plain_name s" and "plain_name c"
  shows "resolve_in wd [''/'' @ join_with ''/'' M, c] = ''/'' @ join_with ''/'' (M @ [c])"
proof -
  have c: "c \<noteq> []" "hd c \<noteq> CHR ''/''" "split_on (CHR ''/'') (c @ ''/'') = [c, []]"
    "c \<noteq> ''.''" "c \<noteq> ''..''"
    using assms(2) split_on_append [of "CHR ''/''" c "[]"]
    by (auto simp: plain_name_def split_on_no_sep neq_Nil_conv)
  have "resolve_prefix (rev [''/'' @ join_with ''/'' M, c] @ [wd]) = (''/'' @ join_with ''/'' M @ ''/'' @ (c @ ''/''), True)"
    using c by simp
  then show ?thesis
    unfolding resolve_in_def finish_resolve_def
    using split_on_abs_join [OF assms(1), of "c @ ''/''"] c
    by (simp add: normalize_segments_plain)
qed

lemma components_abs_join:
  assumes "\<forall>s \<in> set M. plain_name s"
  shows "components (''/'' @ join_with ''/'' M) = M"
proof (cases "M = []")
  case True
  then show ?thesis by (simp add: components_def)
next
  case False
  have sep: "\<forall>s \<in> set M. CHR ''/'' \<notin> set s" and ne: "\<forall>s \<in> set M. s \<noteq> []"
    using assms by (auto simp: plain_name_def)
  have "split_on (CHR ''/'') (''/'' @ join_with ''/'' M) = [] # M"
    using split_on_join [of M "CHR ''/''"] sep False by simp
  moreover have "filter (\<lambda>s. s \<noteq> []) M = M"
    using ne by (simp add: filter_id_conv)
  ultimately show ?thesis by (simp add: components_def)
qed

lemma working_directory_plain: "\<forall>s \<in> set (working_directory wd). plain_name s"
  unfolding working_directory_def by (rule normalize_split_plain)

lemma cwd_path_absolute: "cwd_path wd \<noteq> [] \<and> hd (cwd_path wd) = CHR ''/''"
  by (simp add: cwd_path_def)

lemma root_path_eq: "root_path wd = cwd_path wd"
proof -
  have "resolve_prefix (rev [''.''] @ [cwd_path wd])
        = (''/'' @ join_with ''/'' (working_directory wd) @ ''/'' @ ''./'', True)"
    by (simp add: cwd_path_def)
  then show ?thesis
    unfolding root_path_def resolve_in_def finish_resolve_def
    using split_on_abs_join [OF working_directory_plain, of wd "''./''"]
    by (simp add: cwd_path_def)
qed

lemma script_paths:
  "distDir wd = ''/'' @ join_with ''/'' (working_directory wd @ [''dist''])"
  "htmlPath wd = ''/'' @ join_with ''/'' (working_directory wd @ [''dist'', ''index.html''])"
  "assetsDir wd = ''/'' @ join_with ''/'' (working_directory wd @ [''dist'', ''assets''])"
proof -
  let ?M = "working_directory wd"
  have M: "\<forall>s \<in> set ?M. plain_name s" by (rule working_directory_plain)
  have pn: "plain_name ''dist''" "plain_name ''index.html''" "plain_name ''assets''"
    by (simp_all add: plain_name_def)
  show d: "distDir wd = ''/'' @ join_with ''/'' (?M @ [''dist''])"
    using resolve_child [OF M pn(1)] root_path_eq [of wd] by (simp add: distDir_def cwd_path_def)
  have Md: "\<forall>s \<in> set (?M @ [''dist'']). plain_name s" using M pn by simp
  show "htmlPath wd = ''/'' @ join_with ''/'' (?M @ [''dist'', ''index.html''])"
    using resolve_child [OF Md pn(2)] d by (simp add: htmlPath_def)
  show "assetsDir wd = ''/'' @ join_with ''/'' (?M @ [''dist'', ''assets''])"
    using resolve_child [OF Md pn(3)] d by (simp add: assetsDir_def)
qed

lemma script_components:
  "components (distDir wd) = working_directory wd @ [''dist'']"
  "components (htmlPath wd) = working_directory wd @ [''dist'', ''index.html'']"
  "components (assetsDir wd) = working_directory wd @ [''dist'', ''assets'']"
proof -
  have pl: "\<forall>s \<in> set (working_directory wd @ cs). plain_name s"
    if "\<forall>s \<in> set cs. plain_name s" for cs
    using that working_directory_plain [of wd] by auto
  have pn: "plain_name ''dist''" "plain_name ''index.html''" "plain_name ''assets''"
    by (simp_all add: plain_name_def)
  show "components (distDir wd) = working_directory wd @ [''dist'']"
    unfolding script_paths using pn by (intro components_abs_join pl) simp
  show "components (htmlPath wd) = working_directory wd @ [''dist'', ''index.html'']"
    unfolding script_paths using pn by (intro components_abs_join pl) simp
  show "components (assetsDir wd) = working_directory wd @ [''dist'', ''assets'']"
    unfolding script_paths using pn by (intro components_abs_join pl) simp
qed

lemma walk_append:
  "walk n (cs @ ds) = (case walk n cs of Inl e \<Rightarrow> Inl e | Inr n' \<Rightarrow> walk n' ds)"
  by (induction n cs rule: walk.induct) (auto split: option.splits)

lemma join_with_snoc: "M \<noteq> [] \<Longrightarrow> join_with d (M @ [s]) = join_with d M @ d @ s"
  by (induction d M rule: join_with.induct) auto

text \<open>
  For a working directory given by its normal absolute path (not the root), the three
  paths are the working directory followed by the fixed names.
\<close>

lemma paths_below_working_directory:
  assumes "\<forall>s \<in> set M. plain_name s" and "M \<noteq> []" and "wd = ''/'' @ join_with ''/'' M"
  shows "distDir wd = wd @ ''/dist'' \<and> htmlPath wd = wd @ ''/dist/index.html'' \<and>
         assetsDir wd = wd @ ''/dist/assets''"
proof -
  have sep: "\<forall>s \<in> set M. CHR ''/'' \<notin> set s"
    and pl: "\<forall>s \<in> set M. s \<noteq> [] \<and> s \<noteq> ''.'' \<and> s \<noteq> ''..''"
    using assms(1) by (auto simp: plain_name_def)
  have "split_on (CHR ''/'') wd = [] # M"
    using split_on_join [of M "CHR ''/''"] sep assms(2,3) by simp
  then have M: "working_directory wd = M"
    using pl by (simp add: working_directory_def normalize_segments_plain)
  have j1: "join_with ''/'' (M @ [''dist'']) = join_with ''/'' M @ ''/dist''"
    using join_with_snoc [OF assms(2), of "''/''" "''dist''"] by simp
  have j2: "join_with ''/'' (M @ [''dist'', c]) = join_with ''/'' M @ ''/dist/'' @ c" for c
    using join_with_snoc [of "M @ [''dist'']" "''/''" c] j1 by simp
  show ?thesis
    unfolding script_paths M j1 j2 using assms(3) by simp
qed

subsection \<open>The working directory and \<^verbatim>\<open>path.resolve\<close>\<close>

lemma resolve_prefix_snoc:
  "resolve_prefix (ps @ [wd]) =
     (case resolve_prefix ps of
        (p, absolute) \<Rightarrow>
          if absolute then (p, True)
          else if wd = [] then (p, False)
          else (wd @ ''/'' @ p, hd wd = CHR ''/''))"
  by (induction ps) (auto split: prod.splits)

lemma resolve_eq:
  assumes "\<not> cwd_removed (fsys w) (cwd w)"
  shows "resolve args w = Inr (resolve_in (cwd_path (cwd w)) args)"
  using assms cwd_path_absolute [of "cwd w"]
  by (simp add: resolve_def resolve_in_def process_cwd_def resolve_prefix_snoc split: prod.splits)

lemma resolve_removed:
  assumes "cwd_removed (fsys w) (cwd w)"
  shows "resolve [''.''] w = Inl (Error ''ENOENT: no such file or directory, uv_cwd'')"
  using assms by (simp add: resolve_def process_cwd_def)

lemma walk_locate: "walk n cs = Inr n' \<Longrightarrow> locate n cs = Some n'"
  by (induction n cs rule: walk.induct) (auto split: if_splits option.splits)

text \<open>Whatever can be reached below the working directory shows that it is still there.\<close>

lemma reached_below_cwd:
  assumes "walk fs (working_directory wd @ c # cs) = Inr n"
  shows "\<not> cwd_removed fs wd"
proof -
  have "walk fs (working_directory wd @ c # cs) =
      (case walk fs (working_directory wd) of Inl e \<Rightarrow> Inl e | Inr n' \<Rightarrow> walk n' (c # cs))"
    by (rule walk_append)
  with assms obtain n' where n': "walk fs (working_directory wd) = Inr n'" "walk n' (c # cs) = Inr n"
    by (cases "walk fs (working_directory wd)") simp_all
  from n'(2) obtain r x es where "n' = Dir r x es"
    by (cases n') simp_all
  with n'(1) show ?thesis
    using walk_locate [of fs "working_directory wd" n'] by (simp add: cwd_removed_def)
qed

lemma dist_reached_cwd:
  assumes "access_result fs (distDir wd) = Inr ()"
  shows "\<not> cwd_removed fs wd"
proof -
  obtain n where "walk fs (working_directory wd @ [''dist'']) = Inr n"
    using assms by (cases "walk fs (components (distDir wd))")
      (simp_all add: access_result_def script_components)
  then show ?thesis by (rule reached_below_cwd)
qed

subsection \<open>What a run does, case by case\<close>

lemma print_assets_eq:
  "print_assets names w = w\<lparr>stdout := stdout w @ map (\<lambda>name. ''  - '' @ name) names\<rparr>"
  by (induction names arbitrary: w) (simp_all add: console_log_def)

lemma run_no_cwd:
  assumes "cwd_removed (fsys w) (cwd w)"
  shows "run w = w\<lparr>stderr := stderr w @ [''ENOENT: no such file or directory, uv_cwd''],
                   exitCode := Some 1\<rparr>"
  using assms by (simp add: run_def main_def resolve_removed console_error_def)

lemma run_no_dist:
  assumes "\<not> cwd_removed (fsys w) (cwd w)"
      and "access_result (fsys w) (distDir (cwd w)) = Inl e"
  shows "run w = w\<lparr>stderr := stderr w @ [''Missing dist directory at '' @ distDir (cwd w)],
                   exitCode := Some 1,
                   calls := calls w @ [Access (distDir (cwd w))]\<rparr>"
  using assms
  by (simp add: run_def main_def resolve_eq ensureExists_def fs_access_def console_error_def
      distDir_def root_path_def)

lemma run_no_html:
  assumes "\<not> cwd_removed (fsys w) (cwd w)"
      and "access_result (fsys w) (distDir (cwd w)) = Inr ()"
      and "access_result (fsys w) (htmlPath (cwd w)) = Inl e"
  shows "run w = w\<lparr>stderr := stderr w @ [''Missing dist/index.html at '' @ htmlPath (cwd w)],
                   exitCode := Some 1,
                   calls := calls w @ [Access (distDir (cwd w)), Access (htmlPath (cwd w))]\<rparr>"
  using assms
  by (simp add: run_def main_def resolve_eq ensureExists_def fs_access_def console_error_def
      distDir_def root_path_def htmlPath_def)

lemma run_no_js:
  assumes "\<not> cwd_removed (fsys w) (cwd w)"
      and "access_result (fsys w) (distDir (cwd w)) = Inr ()"
      and "access_result (fsys w) (htmlPath (cwd w)) = Inr ()"
      and "\<not> list_ex (\<lambda>file. endsWith file ''.js'') (assets_listing (fsys w) (cwd w))"
  shows "run w = w\<lparr>stderr := stderr w @ [''dist/assets is missing bundled JavaScript output''],
                   exitCode := Some 1,
                   calls := calls w @ [Access (distDir (cwd w)), Access (htmlPath (cwd w)),
                                       Readdir (assetsDir (cwd w))]\<rparr>"
  using assms
  by (simp add: run_def main_def resolve_eq ensureExists_def fs_access_def fs_readdir_def
      console_error_def distDir_def root_path_def htmlPath_def assetsDir_def assets_listing_def
      Let_def)

lemma run_passed:
  assumes "\<not> cwd_removed (fsys w) (cwd w)"
      and "access_result (fsys w) (distDir (cwd w)) = Inr ()"
      and "access_result (fsys w) (htmlPath (cwd w)) = Inr ()"
      and "list_ex (\<lambda>file. endsWith file ''.js'') (assets_listing (fsys w) (cwd w))"
  shows "run w = w\<lparr>stdout := stdout w @ ''Prebuilt dist assets detected:'' #
                               map (\<lambda>name. ''  - '' @ name) (assets_listing (fsys w) (cwd w)),
                   calls := calls w @ [Access (distDir (cwd w)), Access (htmlPath (cwd w)),
                                       Readdir (assetsDir (cwd w))]\<rparr>"
  using assms
  by (simp add: run_def main_def resolve_eq ensureExists_def fs_access_def fs_readdir_def
      console_log_def print_assets_eq distDir_def root_path_def htmlPath_def assetsDir_def
      assets_listing_def Let_def)

text \<open>The same cases for a process that has just started.\<close>

lemma start_no_cwd:
  assumes "cwd_removed fs wd"
  shows "run (start fs wd) =
           \<lparr>fsys = fs, cwd = wd, stdout = [],
            stderr = [''ENOENT: no such file or directory, uv_cwd''],
            exitCode = Some 1, calls = []\<rparr>"
  using run_no_cwd [of "start fs wd"] assms by (simp add: start_def)

lemma start_no_dist:
  assumes "\<not> cwd_removed fs wd"
      and "access_result fs (distDir wd) = Inl e"
  shows "run (start fs wd) =
           \<lparr>fsys = fs, cwd = wd, stdout = [],
            stderr = [''Missing dist directory at '' @ distDir wd],
            exitCode = Some 1, calls = [Access (distDir wd)]\<rparr>"
  using run_no_dist [of "start fs wd" e] assms by (simp add: start_def)

lemma start_no_html:
  assumes "access_result fs (distDir wd) = Inr ()"
      and "access_result fs (htmlPath wd) = Inl e"
  shows "run (start fs wd) =
           \<lparr>fsys = fs, cwd = wd, stdout = [],
            stderr = [''Missing dist/index.html at '' @ htmlPath wd],
            exitCode = Some 1, calls = [Access (distDir wd), Access (htmlPath wd)]\<rparr>"
  using run_no_html [of "start fs wd" e] assms dist_reached_cwd [OF assms(1)]
  by (simp add: start_def)

lemma start_no_js:
  assumes "access_result fs (distDir wd) = Inr ()"
      and "access_result fs (htmlPath wd) = Inr ()"
      and "\<not> list_ex (\<lambda>file. endsWith file ''.js'') (assets_listing fs wd)"
  shows "run (start fs wd) =
           \<lparr>fsys = fs, cwd = wd, stdout = [],
            stderr = [''dist/assets is missing bundled JavaScript output''],
            exitCode = Some 1,
            calls = [Access (distDir wd), Access (htmlPath wd), Readdir (assetsDir wd)]\<rparr>"
  using run_no_js [of "start fs wd"] assms dist_reached_cwd [OF assms(1)]
  by (simp add: start_def)

lemma start_passed:
  assumes "access_result fs (distDir wd) = Inr ()"
      and "access_result fs (htmlPath wd) = Inr ()"
      and "list_ex (\<lambda>file. endsWith file ''.js'') (assets_listing fs wd)"
  shows "run (start fs wd) =
           \<lparr>fsys = fs, cwd = wd,
            stdout = ''Prebuilt dist assets detected:'' #
                     map (\<lambda>name. ''  - '' @ name) (assets_listing fs wd),
            stderr = [], exitCode = None,
            calls = [Access (distDir wd), Access (htmlPath wd), Readdir (assetsDir wd)]\<rparr>"
  using run_passed [of "start fs wd"] assms dist_reached_cwd [OF assms(1)]
  by (simp add: start_def)

lemma endsWith_iff_append: "endsWith s t \<longleftrightarrow> (\<exists>stem. s = stem @ t)"
proof
  assume "endsWith s t"
  then have "s = take (length s - length t) s @ t"
    by (metis append_take_drop_id endsWith_def)
  then show "\<exists>stem. s = stem @ t" ..
next
  assume "\<exists>stem. s = stem @ t"
  then show "endsWith s t" by (auto simp: endsWith_def)
qed

lemma run_fsys: "fsys (run w) = fsys w \<and> cwd (run w) = cwd w"
proof (cases "cwd_removed (fsys w) (cwd w)")
  case True
  then show ?thesis by (simp add: run_no_cwd)
next
  case c: False
  show ?thesis
  proof (cases "access_result (fsys w) (distDir (cwd w))")
    case (Inl e)
    then show ?thesis using c by (simp add: run_no_dist)
  next
    case d: (Inr u)
    show ?thesis
    proof (cases "access_result (fsys w) (htmlPath (cwd w))")
      case (Inl e)
      then show ?thesis using c d by (simp add: run_no_html)
    next
      case h: (Inr v)
      show ?thesis
      proof (cases "list_ex (\<lambda>file. endsWith file ''.js'') (assets_listing (fsys w) (cwd w))")
        case True
        then show ?thesis using c d h by (simp add: run_passed)
      next
        case False
        then show ?thesis using c d h by (simp add: run_no_js)
      qed
    qed
  qed
qed

lemma ensureExists_passes:
  "fst (ensureExists path description w) = Inr () \<longleftrightarrow> access_result (fsys w) path = Inr ()"
  by (cases "access_result (fsys w) path") (simp_all add: ensureExists_def fs_access_def)

subsection \<open>The claims\<close>

text \<open>
  C1. In every working directory where \<^verbatim>\<open>dist\<close> and \<^verbatim>\<open>dist/index.html\<close> are there and the
  listing of \<^verbatim>\<open>dist/assets\<close> has at least one name ending in \<^verbatim>\<open>.js\<close>, the run ends with
  status 0, writes nothing to the error stream, and standard output is the header line
  followed by one line for each entry of the listing, scripts or not, in the order of
  the listing, each name after two blanks, a dash and a blank.
\<close>

theorem C1_passed_lists_every_entry:
  assumes "access_result fs (distDir wd) = Inr ()"
      and "access_result fs (htmlPath wd) = Inr ()"
      and "readdir_result fs (assetsDir wd) = Inr names"
      and "\<exists>name \<in> set names. endsWith name ''.js''"
  shows "exit_status (run (start fs wd)) = 0 \<and>
         stdout (run (start fs wd)) =
           ''Prebuilt dist assets detected:'' # map (\<lambda>name. ''  - '' @ name) names \<and>
         stderr (run (start fs wd)) = []"
proof -
  have listing: "assets_listing fs wd = names"
    using assms(3) by (simp add: assets_listing_def)
  then have "list_ex (\<lambda>file. endsWith file ''.js'') (assets_listing fs wd)"
    using assms(4) by (simp add: list_ex_iff)
  then show ?thesis
    using assms(1,2) listing by (simp add: start_passed exit_status_def)
qed

theorem C1_scenario_E:
  "readdir_result scenario_E (assetsDir ''/w'') = Inr [''main.abc123.js'', ''main.abc123.css''] \<and>
   exit_status (run (start scenario_E ''/w'')) = 0 \<and>
   stdout (run (start scenario_E ''/w'')) =
     [''Prebuilt dist assets detected:'', ''  - main.abc123.js'', ''  - main.abc123.css''] \<and>
   stderr (run (start scenario_E ''/w'')) = []"
proof -
  have d: "access_result scenario_E (distDir ''/w'') = Inr ()" by code_simp
  have h: "access_result scenario_E (htmlPath ''/w'') = Inr ()" by code_simp
  have l: "readdir_result scenario_E (assetsDir ''/w'') = Inr [''main.abc123.js'', ''main.abc123.css'']"
    by code_simp
  have j: "\<exists>name \<in> set [''main.abc123.js'', ''main.abc123.css'']. endsWith name ''.js''"
    by (simp add: endsWith_def)
  show ?thesis
    using C1_passed_lists_every_entry [OF d h l j] l by simp
qed

text \<open>
  C2. In every working directory that is still there and in which nothing can be
  reached under the name \<^verbatim>\<open>dist\<close> (no such entry, or no permission), the run fails: the
  status is not 0, the one line on the error stream is \<^verbatim>\<open>Missing dist directory at\<close> and
  the path of \<^verbatim>\<open>dist\<close>, nothing is printed to standard output, and the access to \<^verbatim>\<open>dist\<close>
  is the only file-system call made: no later check takes place.
\<close>

theorem C2_missing_dist:
  assumes "\<not> cwd_removed fs wd"
      and "access_result fs (distDir wd) = Inl e"
  shows "exit_status (run (start fs wd)) \<noteq> 0 \<and>
         stderr (run (start fs wd)) = [''Missing dist directory at '' @ distDir wd] \<and>
         stdout (run (start fs wd)) = [] \<and>
         calls (run (start fs wd)) = [Access (distDir wd)]"
  using assms by (simp add: start_no_dist exit_status_def)

theorem C2_scenario_A:
  "\<not> cwd_removed scenario_A ''/w'' \<and>
   access_result scenario_A (distDir ''/w'') = Inl ENOENT \<and>
   \<not> cwd_removed locked_project ''/w'' \<and>
   access_result locked_project (distDir ''/w'') = Inl EACCES \<and>
   exit_status (run (start scenario_A ''/w'')) \<noteq> 0 \<and>
   stderr (run (start scenario_A ''/w'')) = [''Missing dist directory at /w/dist''] \<and>
   stderr (run (start locked_project ''/w'')) = [''Missing dist directory at /w/dist''] \<and>
   calls (run (start scenario_A ''/w'')) = [Access ''/w/dist'']"
proof -
  have c: "\<not> cwd_removed scenario_A ''/w''" by code_simp
  have a: "access_result scenario_A (distDir ''/w'') = Inl ENOENT" by code_simp
  have c': "\<not> cwd_removed locked_project ''/w''" by code_simp
  have b: "access_result locked_project (distDir ''/w'') = Inl EACCES" by code_simp
  have p: "distDir ''/w'' = ''/w/dist''" by code_simp
  show ?thesis
    using C2_missing_dist [OF c a] C2_missing_dist [OF c' b] c a c' b p by simp
qed

text \<open>
  A working directory can be without a \<^verbatim>\<open>dist\<close> subdirectory in two more ways. Where
  \<^verbatim>\<open>dist\<close> is a plain file, the first check passes and the run reports \<^verbatim>\<open>dist/index.html\<close>
  after a second access. Where the working directory itself has been removed, the run
  ends with the error of \<^verbatim>\<open>process.cwd()\<close> before any check.
\<close>

theorem C2_other_ways_to_lack_dist:
  "walk dist_is_file (components (distDir ''/w'')) = Inr File \<and>
   stderr (run (start dist_is_file ''/w'')) = [''Missing dist/index.html at /w/dist/index.html''] \<and>
   calls (run (start dist_is_file ''/w'')) = [Access ''/w/dist'', Access ''/w/dist/index.html''] \<and>
   cwd_removed removed_project ''/w'' \<and>
   stderr (run (start removed_project ''/w'')) = [''ENOENT: no such file or directory, uv_cwd''] \<and>
   calls (run (start removed_project ''/w'')) = []"
proof -
  have a: "walk dist_is_file (components (distDir ''/w'')) = Inr File" by code_simp
  have b: "stderr (run (start dist_is_file ''/w'')) = [''Missing dist/index.html at /w/dist/index.html'']"
    by code_simp
  have c: "calls (run (start dist_is_file ''/w'')) = [Access ''/w/dist'', Access ''/w/dist/index.html'']"
    by code_simp
  have d: "cwd_removed removed_project ''/w''" by code_simp
  have e: "stderr (run (start removed_project ''/w'')) = [''ENOENT: no such file or directory, uv_cwd'']"
    by code_simp
  have f: "calls (run (start removed_project ''/w'')) = []" by code_simp
  show ?thesis using a b c d e f by simp
qed

text \<open>
  C3. In every working directory where \<^verbatim>\<open>dist\<close> is there and \<^verbatim>\<open>dist/index.html\<close> is not,
  the run ends with a status other than 0 and the one line on the error stream is
  \<^verbatim>\<open>Missing dist/index.html at\<close> and the path of the file, whatever \<^verbatim>\<open>dist/assets\<close>
  holds: the directory is never read.
\<close>

theorem C3_missing_index_html:
  assumes "access_result fs (distDir wd) = Inr ()"
      and "access_result fs (htmlPath wd) = Inl e"
  shows "exit_status (run (start fs wd)) \<noteq> 0 \<and>
         stderr (run (start fs wd)) = [''Missing dist/index.html at '' @ htmlPath wd] \<and>
         stdout (run (start fs wd)) = [] \<and>
         calls (run (start fs wd)) = [Access (distDir wd), Access (htmlPath wd)]"
  using assms by (simp add: start_no_html exit_status_def)

theorem C3_scenario_B:
  "readdir_result scenario_B (assetsDir ''/w'') = Inr [''app.js''] \<and>
   exit_status (run (start scenario_B ''/w'')) \<noteq> 0 \<and>
   stderr (run (start scenario_B ''/w'')) = [''Missing dist/index.html at /w/dist/index.html'']"
proof -
  have d: "access_result scenario_B (distDir ''/w'') = Inr ()" by code_simp
  have h: "access_result scenario_B (htmlPath ''/w'') = Inl ENOENT" by code_simp
  have l: "readdir_result scenario_B (assetsDir ''/w'') = Inr [''app.js'']" by code_simp
  have p: "htmlPath ''/w'' = ''/w/dist/index.html''" by code_simp
  show ?thesis
    using C3_missing_index_html [OF d h] l p by simp
qed

text \<open>
  C4. In every working directory where \<^verbatim>\<open>dist/index.html\<close> is there and \<^verbatim>\<open>dist/assets\<close> is
  missing or cannot be listed, the failure of the directory read is not reported: the
  listing counts as empty, so the run fails with exactly the line
  \<^verbatim>\<open>dist/assets is missing bundled JavaScript output\<close> and a status other than 0, and
  its status and output are those of any run whose assets directory is listed and has
  no name ending in \<^verbatim>\<open>.js\<close>.
\<close>

theorem C4_unlisted_assets_count_as_empty:
  assumes "access_result fs (distDir wd) = Inr ()"
      and "access_result fs (htmlPath wd) = Inr ()"
      and "readdir_result fs (assetsDir wd) = Inl e"
  shows "assets_listing fs wd = [] \<and>
         stderr (run (start fs wd)) = [''dist/assets is missing bundled JavaScript output''] \<and>
         stdout (run (start fs wd)) = [] \<and>
         exit_status (run (start fs wd)) \<noteq> 0 \<and>
         (\<forall>fs' wd' names.
            access_result fs' (distDir wd') = Inr () \<and>
            access_result fs' (htmlPath wd') = Inr () \<and>
            readdir_result fs' (assetsDir wd') = Inr names \<and>
            \<not> list_ex (\<lambda>file. endsWith file ''.js'') names \<longrightarrow>
            stderr (run (start fs' wd')) = stderr (run (start fs wd)) \<and>
            stdout (run (start fs' wd')) = stdout (run (start fs wd)) \<and>
            exit_status (run (start fs' wd')) = exit_status (run (start fs wd)))"
proof -
  have empty: "assets_listing fs wd = []"
    using assms(3) by (simp add: assets_listing_def)
  then have here: "run (start fs wd) =
      \<lparr>fsys = fs, cwd = wd, stdout = [],
       stderr = [''dist/assets is missing bundled JavaScript output''],
       exitCode = Some 1,
       calls = [Access (distDir wd), Access (htmlPath wd), Readdir (assetsDir wd)]\<rparr>"
    using assms(1,2) by (simp add: start_no_js)
  have there: "stderr (run (start fs' wd')) = [''dist/assets is missing bundled JavaScript output'']
      \<and> stdout (run (start fs' wd')) = [] \<and> exit_status (run (start fs' wd')) = 1"
    if "access_result fs' (distDir wd') = Inr ()" "access_result fs' (htmlPath wd') = Inr ()"
       "readdir_result fs' (assetsDir wd') = Inr names"
       "\<not> list_ex (\<lambda>file. endsWith file ''.js'') names"
    for fs' wd' names
  proof -
    have "\<not> list_ex (\<lambda>file. endsWith file ''.js'') (assets_listing fs' wd')"
      using that(3,4) by (simp add: assets_listing_def)
    then show ?thesis
      using that(1,2) by (simp add: start_no_js exit_status_def)
  qed
  show ?thesis
    using empty here there by (simp add: exit_status_def)
qed

theorem C4_scenario_C:
  "readdir_result scenario_C (assetsDir ''/w'') = Inl ENOENT \<and>
   readdir_result scenario_D (assetsDir ''/w'') = Inr [''style.css''] \<and>
   stderr (run (start scenario_C ''/w'')) = [''dist/assets is missing bundled JavaScript output''] \<and>
   exit_status (run (start scenario_C ''/w'')) \<noteq> 0 \<and>
   stderr (run (start scenario_D ''/w'')) = stderr (run (start scenario_C ''/w'')) \<and>
   stdout (run (start scenario_D ''/w'')) = stdout (run (start scenario_C ''/w'')) \<and>
   exit_status (run (start scenario_D ''/w'')) = exit_status (run (start scenario_C ''/w''))"
proof -
  have d: "access_result scenario_C (distDir ''/w'') = Inr ()" by code_simp
  have h: "access_result scenario_C (htmlPath ''/w'') = Inr ()" by code_simp
  have l: "readdir_result scenario_C (assetsDir ''/w'') = Inl ENOENT" by code_simp
  have d': "access_result scenario_D (distDir ''/w'') = Inr ()" by code_simp
  have h': "access_result scenario_D (htmlPath ''/w'') = Inr ()" by code_simp
  have l': "readdir_result scenario_D (assetsDir ''/w'') = Inr [''style.css'']" by code_simp
  have n: "\<not> list_ex (\<lambda>file. endsWith file ''.js'') [''style.css'']"
    by (simp add: endsWith_def)
  show ?thesis
    using C4_unlisted_assets_count_as_empty [OF d h l] l d' h' l' n by simp
qed

text \<open>
  The directory read also fails on an assets directory that may not be read, whatever
  it holds, and on a plain file of that name.
\<close>

lemma unlisted_assets_examples:
  "readdir_result unreadable_assets (assetsDir ''/w'') = Inl EACCES \<and>
   readdir_result assets_is_file (assetsDir ''/w'') = Inl ENOTDIR \<and>
   stderr (run (start unreadable_assets ''/w'')) = [''dist/assets is missing bundled JavaScript output''] \<and>
   stderr (run (start assets_is_file ''/w'')) = [''dist/assets is missing bundled JavaScript output'']"
  by code_simp

text \<open>
  C5. With \<^verbatim>\<open>dist\<close> and \<^verbatim>\<open>dist/index.html\<close> in place, the run passes exactly when some name
  of the assets listing is a string followed by the three characters \<^verbatim>\<open>.js\<close>, compared
  as they are: \<^verbatim>\<open>Main.JS\<close> and \<^verbatim>\<open>.jsx\<close> do not count, \<^verbatim>\<open>main.abc123.js\<close> does. When
  no name counts, the run fails with the line
  \<^verbatim>\<open>dist/assets is missing bundled JavaScript output\<close>.
\<close>

theorem C5_js_suffix_decides:
  assumes "access_result fs (distDir wd) = Inr ()"
      and "access_result fs (htmlPath wd) = Inr ()"
  shows "(exit_status (run (start fs wd)) = 0 \<longleftrightarrow>
            (\<exists>name \<in> set (assets_listing fs wd). \<exists>stem. name = stem @ ''.js'')) \<and>
         (fst (main (start fs wd)) = Inr () \<longleftrightarrow>
            (\<exists>name \<in> set (assets_listing fs wd). \<exists>stem. name = stem @ ''.js'')) \<and>
         ((\<forall>name \<in> set (assets_listing fs wd). \<forall>stem. name \<noteq> stem @ ''.js'') \<longrightarrow>
            stderr (run (start fs wd)) = [''dist/assets is missing bundled JavaScript output''] \<and>
            exit_status (run (start fs wd)) \<noteq> 0) \<and>
         \<not> endsWith ''Main.JS'' ''.js'' \<and> \<not> endsWith ''.jsx'' ''.js'' \<and>
         endsWith ''main.abc123.js'' ''.js''"
proof -
  have ex: "list_ex (\<lambda>file. endsWith file ''.js'') (assets_listing fs wd) \<longleftrightarrow>
            (\<exists>name \<in> set (assets_listing fs wd). \<exists>stem. name = stem @ ''.js'')"
    by (simp add: list_ex_iff endsWith_iff_append)
  have m: "fst (main (start fs wd)) = Inr () \<longleftrightarrow>
           list_ex (\<lambda>file. endsWith file ''.js'') (assets_listing fs wd)"
    using assms dist_reached_cwd [OF assms(1)]
    by (simp add: main_def resolve_eq ensureExists_def fs_access_def fs_readdir_def start_def
        distDir_def root_path_def htmlPath_def assetsDir_def assets_listing_def Let_def)
  have words: "\<not> endsWith ''Main.JS'' ''.js'' \<and> \<not> endsWith ''.jsx'' ''.js'' \<and>
         endsWith ''main.abc123.js'' ''.js''"
    by (simp add: endsWith_def)
  show ?thesis
  proof (cases "list_ex (\<lambda>file. endsWith file ''.js'') (assets_listing fs wd)")
    case True
    then have "exit_status (run (start fs wd)) = 0"
      using assms by (simp add: start_passed exit_status_def)
    then show ?thesis using True ex m words by auto
  next
    case False
    then have "stderr (run (start fs wd)) = [''dist/assets is missing bundled JavaScript output'']
       \<and> exit_status (run (start fs wd)) = 1"
      using assms by (simp add: start_no_js exit_status_def)
    then show ?thesis using False ex m words by auto
  qed
qed

theorem C5_near_misses:
  "assets_listing near_misses ''/w'' = [''Main.JS'', ''.jsx''] \<and>
   exit_status (run (start near_misses ''/w'')) \<noteq> 0 \<and>
   stderr (run (start near_misses ''/w'')) = [''dist/assets is missing bundled JavaScript output''] \<and>
   assets_listing scenario_E ''/w'' = [''main.abc123.js'', ''main.abc123.css''] \<and>
   exit_status (run (start scenario_E ''/w'')) = 0"
proof -
  have d: "access_result near_misses (distDir ''/w'') = Inr ()" by code_simp
  have h: "access_result near_misses (htmlPath ''/w'') = Inr ()" by code_simp
  have l: "assets_listing near_misses ''/w'' = [''Main.JS'', ''.jsx'']" by code_simp
  have d': "access_result scenario_E (distDir ''/w'') = Inr ()" by code_simp
  have h': "access_result scenario_E (htmlPath ''/w'') = Inr ()" by code_simp
  have l': "assets_listing scenario_E ''/w'' = [''main.abc123.js'', ''main.abc123.css'']" by code_simp
  have no: "\<forall>name \<in> set (assets_listing near_misses ''/w''). \<forall>stem. name \<noteq> stem @ ''.js''"
    unfolding l by (auto simp: append_eq_Cons_conv)
  have yes: "\<exists>name \<in> set (assets_listing scenario_E ''/w''). \<exists>stem. name = stem @ ''.js''"
    unfolding l' by (rule bexI [of _ "''main.abc123.js''"], rule exI [of _ "''main.abc123''"]) simp_all
  have failed: "stderr (run (start near_misses ''/w'')) = [''dist/assets is missing bundled JavaScript output'']
      \<and> exit_status (run (start near_misses ''/w'')) \<noteq> 0"
    using C5_js_suffix_decides [OF d h] no by blast
  have passed: "exit_status (run (start scenario_E ''/w'')) = 0"
    using C5_js_suffix_decides [OF d' h'] yes by blast
  show ?thesis
    using failed passed l l' by simp
qed

text \<open>
  C6. A run fails exactly when the working directory has been removed or one of the
  three checks fails, and it has then written nothing to standard output and exactly
  one line to the error stream. With the working directory in place, the line is that
  of the first check that fails, in the fixed order \<^verbatim>\<open>dist\<close>, \<^verbatim>\<open>dist/index.html\<close>, assets
  listing: \<^verbatim>\<open>Missing dist directory at\<close> and the path, \<^verbatim>\<open>Missing dist/index.html at\<close> and
  the path, or the assets message; what later checks would have found plays no part,
  and the file-system calls of the run are an initial part of that fixed sequence.
  With the working directory removed, the line is the error of \<^verbatim>\<open>process.cwd()\<close> and no
  call is made.
\<close>

theorem C6_one_message_of_first_failure:
  "(cwd_removed fs wd \<or>
    access_result fs (distDir wd) \<noteq> Inr () \<or>
    access_result fs (htmlPath wd) \<noteq> Inr () \<or>
    \<not> list_ex (\<lambda>file. endsWith file ''.js'') (assets_listing fs wd)
    \<longrightarrow>
      exit_status (run (start fs wd)) \<noteq> 0 \<and>
      stdout (run (start fs wd)) = [] \<and>
      stderr (run (start fs wd)) =
        [if cwd_removed fs wd
           then ''ENOENT: no such file or directory, uv_cwd''
         else if access_result fs (distDir wd) \<noteq> Inr ()
           then ''Missing dist directory at '' @ distDir wd
         else if access_result fs (htmlPath wd) \<noteq> Inr ()
           then ''Missing dist/index.html at '' @ htmlPath wd
         else ''dist/assets is missing bundled JavaScript output''] \<and>
      prefix (calls (run (start fs wd)))
        [Access (distDir wd), Access (htmlPath wd), Readdir (assetsDir wd)] \<and>
      (cwd_removed fs wd \<longrightarrow> calls (run (start fs wd)) = [])) \<and>
   (exit_status (run (start fs wd)) \<noteq> 0 \<longrightarrow>
      cwd_removed fs wd \<or>
      access_result fs (distDir wd) \<noteq> Inr () \<or>
      access_result fs (htmlPath wd) \<noteq> Inr () \<or>
      \<not> list_ex (\<lambda>file. endsWith file ''.js'') (assets_listing fs wd))"
proof (cases "cwd_removed fs wd")
  case True
  then show ?thesis by (simp add: start_no_cwd exit_status_def)
next
  case c: False
  show ?thesis
  proof (cases "access_result fs (distDir wd)")
    case (Inl e)
    then show ?thesis using c by (simp add: start_no_dist exit_status_def)
  next
    case d: (Inr u)
    show ?thesis
    proof (cases "access_result fs (htmlPath wd)")
      case (Inl e)
      then show ?thesis using c d by (simp add: start_no_html exit_status_def)
    next
      case h: (Inr v)
      show ?thesis
      proof (cases "list_ex (\<lambda>file. endsWith file ''.js'') (assets_listing fs wd)")
        case True
        then show ?thesis using c d h by (simp add: start_passed exit_status_def)
      next
        case False
        then show ?thesis using c d h by (simp add: start_no_js exit_status_def)
      qed
    qed
  qed
qed

theorem C6_each_check_in_turn:
  "access_result scenario_A (distDir ''/w'') \<noteq> Inr () \<and>
   access_result scenario_A (htmlPath ''/w'') \<noteq> Inr () \<and>
   assets_listing scenario_A ''/w'' = [] \<and>
   stderr (run (start scenario_A ''/w'')) = [''Missing dist directory at /w/dist''] \<and>
   stdout (run (start scenario_A ''/w'')) = [] \<and>
   exit_status (run (start scenario_A ''/w'')) \<noteq> 0 \<and>
   access_result empty_dist (distDir ''/w'') = Inr () \<and>
   access_result empty_dist (htmlPath ''/w'') \<noteq> Inr () \<and>
   assets_listing empty_dist ''/w'' = [] \<and>
   stderr (run (start empty_dist ''/w'')) = [''Missing dist/index.html at /w/dist/index.html''] \<and>
   exit_status (run (start empty_dist ''/w'')) \<noteq> 0 \<and>
   access_result scenario_D (distDir ''/w'') = Inr () \<and>
   access_result scenario_D (htmlPath ''/w'') = Inr () \<and>
   assets_listing scenario_D ''/w'' = [''style.css''] \<and>
   stderr (run (start scenario_D ''/w'')) = [''dist/assets is missing bundled JavaScript output''] \<and>
   exit_status (run (start scenario_D ''/w'')) \<noteq> 0 \<and>
   cwd_removed removed_project ''/w'' \<and>
   stderr (run (start removed_project ''/w'')) = [''ENOENT: no such file or directory, uv_cwd''] \<and>
   calls (run (start removed_project ''/w'')) = []"
proof -
  have p: "distDir ''/w'' = ''/w/dist''" "htmlPath ''/w'' = ''/w/dist/index.html''"
    by code_simp+
  have ca: "\<not> cwd_removed scenario_A ''/w''" by code_simp
  have da: "access_result scenario_A (distDir ''/w'') = Inl ENOENT" by code_simp
  have ha: "access_result scenario_A (htmlPath ''/w'') = Inl ENOENT" by code_simp
  have la: "assets_listing scenario_A ''/w'' = []" by code_simp
  have A: "stderr (run (start scenario_A ''/w'')) = [''Missing dist directory at /w/dist''] \<and>
      stdout (run (start scenario_A ''/w'')) = [] \<and>
      exit_status (run (start scenario_A ''/w'')) \<noteq> 0"
    using C6_one_message_of_first_failure [of scenario_A "''/w''"] ca da p by simp
  have ce: "\<not> cwd_removed empty_dist ''/w''" by code_simp
  have de: "access_result empty_dist (distDir ''/w'') = Inr ()" by code_simp
  have he: "access_result empty_dist (htmlPath ''/w'') = Inl ENOENT" by code_simp
  have le: "assets_listing empty_dist ''/w'' = []" by code_simp
  have E: "stderr (run (start empty_dist ''/w'')) = [''Missing dist/index.html at /w/dist/index.html''] \<and>
      exit_status (run (start empty_dist ''/w'')) \<noteq> 0"
    using C6_one_message_of_first_failure [of empty_dist "''/w''"] ce de he p by simp
  have cd: "\<not> cwd_removed scenario_D ''/w''" by code_simp
  have dd: "access_result scenario_D (distDir ''/w'') = Inr ()" by code_simp
  have hd: "access_result scenario_D (htmlPath ''/w'') = Inr ()" by code_simp
  have ld: "assets_listing scenario_D ''/w'' = [''style.css'']" by code_simp
  have nd: "\<not> list_ex (\<lambda>file. endsWith file ''.js'') (assets_listing scenario_D ''/w'')"
    unfolding ld by (simp add: endsWith_def)
  have D: "stderr (run (start scenario_D ''/w'')) = [''dist/assets is missing bundled JavaScript output''] \<and>
      exit_status (run (start scenario_D ''/w'')) \<noteq> 0"
    using C6_one_message_of_first_failure [of scenario_D "''/w''"] cd dd hd nd by simp
  have cr: "cwd_removed removed_project ''/w''" by code_simp
  have R: "stderr (run (start removed_project ''/w'')) = [''ENOENT: no such file or directory, uv_cwd''] \<and>
      calls (run (start removed_project ''/w'')) = []"
    using C6_one_message_of_first_failure [of removed_project "''/w''"] cr by simp
  show ?thesis
    using A E D R da ha la de he le dd hd ld cr by simp
qed

text \<open>
  In a working directory that has been removed the run fails with a line that is
  neither of the two forms nor the assets message, and no check decides it.
\<close>

theorem C6_removed_directory_message:
  "exit_status (run (start removed_project ''/w'')) \<noteq> 0 \<and>
   stderr (run (start removed_project ''/w'')) = [''ENOENT: no such file or directory, uv_cwd''] \<and>
   calls (run (start removed_project ''/w'')) = []"
proof -
  have a: "exit_status (run (start removed_project ''/w'')) \<noteq> 0" by code_simp
  have b: "stderr (run (start removed_project ''/w'')) = [''ENOENT: no such file or directory, uv_cwd'']"
    by code_simp
  have c: "calls (run (start removed_project ''/w'')) = []" by code_simp
  show ?thesis using a b c by simp
qed

text \<open>
  C7. A run leaves the file system and the working directory as it found them; its
  only file-system calls are accesses and directory reads. Hence a second run, started
  afresh on what the first left behind, ends with the same status and has written the
  same lines to standard output and to the error stream.
\<close>

theorem C7_nothing_changed_same_result_again:
  "fsys (run (start fs wd)) = fs \<and> cwd (run (start fs wd)) = wd \<and>
   exit_status (run (start (fsys (run (start fs wd))) (cwd (run (start fs wd)))))
     = exit_status (run (start fs wd)) \<and>
   stdout (run (start (fsys (run (start fs wd))) (cwd (run (start fs wd)))))
     = stdout (run (start fs wd)) \<and>
   stderr (run (start (fsys (run (start fs wd))) (cwd (run (start fs wd)))))
     = stderr (run (start fs wd))"
proof -
  have "fsys (run (start fs wd)) = fs \<and> cwd (run (start fs wd)) = wd"
    using run_fsys [of "start fs wd"] by (simp add: start_def)
  then show ?thesis by simp
qed

text \<open>
  C8. Whichever of the three checks fails, the status of the run is exactly 1; a
  status other than 0 is always 1.
\<close>

theorem C8_failure_status_is_one:
  "(access_result fs (distDir wd) \<noteq> Inr () \<or>
    access_result fs (htmlPath wd) \<noteq> Inr () \<or>
    \<not> list_ex (\<lambda>file. endsWith file ''.js'') (assets_listing fs wd)
      \<longrightarrow> exit_status (run (start fs wd)) = 1) \<and>
   (exit_status (run (start fs wd)) \<noteq> 0 \<longrightarrow> exit_status (run (start fs wd)) = 1)"
proof (cases "cwd_removed fs wd")
  case True
  then show ?thesis by (simp add: start_no_cwd exit_status_def)
next
  case c: False
  show ?thesis
  proof (cases "access_result fs (distDir wd)")
    case (Inl e)
    then show ?thesis using c by (simp add: start_no_dist exit_status_def)
  next
    case d: (Inr u)
    show ?thesis
    proof (cases "access_result fs (htmlPath wd)")
      case (Inl e)
      then show ?thesis using d by (simp add: start_no_html exit_status_def)
    next
      case h: (Inr v)
      show ?thesis
      proof (cases "list_ex (\<lambda>file. endsWith file ''.js'') (assets_listing fs wd)")
        case True
        then show ?thesis using d h by (simp add: start_passed exit_status_def)
      next
        case False
        then show ?thesis using d h by (simp add: start_no_js exit_status_def)
      qed
    qed
  qed
qed

theorem C8_three_failures:
  "access_result scenario_A (distDir ''/w'') \<noteq> Inr () \<and>
   exit_status (run (start scenario_A ''/w'')) = 1 \<and>
   access_result scenario_B (htmlPath ''/w'') \<noteq> Inr () \<and>
   exit_status (run (start scenario_B ''/w'')) = 1 \<and>
   \<not> list_ex (\<lambda>file. endsWith file ''.js'') (assets_listing scenario_D ''/w'') \<and>
   exit_status (run (start scenario_D ''/w'')) = 1"
proof -
  have a: "access_result scenario_A (distDir ''/w'') \<noteq> Inr ()" by code_simp
  have b: "access_result scenario_B (htmlPath ''/w'') \<noteq> Inr ()" by code_simp
  have c: "\<not> list_ex (\<lambda>file. endsWith file ''.js'') (assets_listing scenario_D ''/w'')"
    by code_simp
  show ?thesis
    using C8_failure_status_is_one [of scenario_A "''/w''"]
      C8_failure_status_is_one [of scenario_B "''/w''"]
      C8_failure_status_is_one [of scenario_D "''/w''"] a b c
    by simp
qed

text \<open>
  C9. The assets check reads names only. Whatever the entry behind a listed name is, a
  plain file or a directory of any content, a name ending in \<^verbatim>\<open>.js\<close> lets the run pass
  and is printed like any other: a subdirectory \<^verbatim>\<open>bundle.js\<close> does, and so does an entry
  whose whole name is \<^verbatim>\<open>.js\<close>.
\<close>

theorem C9_entry_kind_is_not_inspected:
  assumes "access_result fs (distDir wd) = Inr ()"
      and "access_result fs (htmlPath wd) = Inr ()"
      and "walk fs (components (assetsDir wd)) = Inr (Dir True x entries)"
      and "(name, entry) \<in> set entries"
      and "endsWith name ''.js''"
  shows "exit_status (run (start fs wd)) = 0 \<and>
         stdout (run (start fs wd)) =
           ''Prebuilt dist assets detected:'' # map (\<lambda>name. ''  - '' @ name) (map fst entries)"
proof -
  have listing: "assets_listing fs wd = map fst entries"
    using assms(3) by (simp add: assets_listing_def readdir_result_def)
  have "name \<in> set (map fst entries)"
    using assms(4) by force
  then have "list_ex (\<lambda>file. endsWith file ''.js'') (assets_listing fs wd)"
    using assms(5) listing by (auto simp: list_ex_iff)
  then show ?thesis
    using assms(1,2) listing by (simp add: start_passed exit_status_def)
qed

theorem C9_bundle_js_directory:
  "walk js_subdirectory (components (assetsDir ''/w'')) = Inr (Dir True True [(''bundle.js'', Dir True True [])]) \<and>
   exit_status (run (start js_subdirectory ''/w'')) = 0 \<and>
   stdout (run (start js_subdirectory ''/w'')) = [''Prebuilt dist assets detected:'', ''  - bundle.js''] \<and>
   walk hidden_js (components (assetsDir ''/w'')) = Inr (Dir True True [(''.js'', File)]) \<and>
   exit_status (run (start hidden_js ''/w'')) = 0 \<and>
   stdout (run (start hidden_js ''/w'')) = [''Prebuilt dist assets detected:'', ''  - .js'']"
proof -
  have d: "access_result js_subdirectory (distDir ''/w'') = Inr ()" by code_simp
  have h: "access_result js_subdirectory (htmlPath ''/w'') = Inr ()" by code_simp
  have a: "walk js_subdirectory (components (assetsDir ''/w''))
           = Inr (Dir True True [(''bundle.js'', Dir True True [])])" by code_simp
  have m: "(''bundle.js'', Dir True True []) \<in> set [(''bundle.js'', Dir True True [])]" by simp
  have e: "endsWith ''bundle.js'' ''.js''" by (simp add: endsWith_def)
  have d': "access_result hidden_js (distDir ''/w'') = Inr ()" by code_simp
  have h': "access_result hidden_js (htmlPath ''/w'') = Inr ()" by code_simp
  have a': "walk hidden_js (components (assetsDir ''/w'')) = Inr (Dir True True [(''.js'', File)])"
    by code_simp
  have m': "(''.js'', File) \<in> set [(''.js'', File)]" by simp
  have e': "endsWith ''.js'' ''.js''" by (simp add: endsWith_def)
  show ?thesis
    using C9_entry_kind_is_not_inspected [OF d h a m e]
      C9_entry_kind_is_not_inspected [OF d' h' a' m' e'] a a'
    by simp
qed

text \<open>
  C10. Both existence checks ask only whether the path can be reached, never what
  is there. A plain file named \<^verbatim>\<open>dist\<close> passes the check of the output directory; the
  run then stops at the next check, since nothing can be reached below a plain file,
  and reports \<^verbatim>\<open>dist/index.html\<close> as missing without reading the assets directory. A
  directory named \<^verbatim>\<open>index.html\<close> inside \<^verbatim>\<open>dist\<close> passes the check of the entry file, so
  such a working directory does reach the assets check, and the run ends with status
  0 when the listing has a name ending in \<^verbatim>\<open>.js\<close>.
\<close>

theorem C10_existence_checks_ignore_kind:
  assumes "wd \<noteq> []" and "hd wd = CHR ''/''"
  shows "(walk fs (components (distDir wd)) = Inr File \<longrightarrow>
            fst (ensureExists (distDir wd) ''dist directory'' (start fs wd)) = Inr () \<and>
            access_result fs (htmlPath wd) = Inl ENOTDIR \<and>
            stderr (run (start fs wd)) = [''Missing dist/index.html at '' @ htmlPath wd] \<and>
            calls (run (start fs wd)) = [Access (distDir wd), Access (htmlPath wd)] \<and>
            exit_status (run (start fs wd)) = 1) \<and>
         (walk fs (components (htmlPath wd)) = Inr (Dir r x entries) \<longrightarrow>
            fst (ensureExists (distDir wd) ''dist directory'' (start fs wd)) = Inr () \<and>
            fst (ensureExists (htmlPath wd) ''dist/index.html'' (start fs wd)) = Inr () \<and>
            Readdir (assetsDir wd) \<in> set (calls (run (start fs wd))) \<and>
            (list_ex (\<lambda>file. endsWith file ''.js'') (assets_listing fs wd) \<longrightarrow>
               exit_status (run (start fs wd)) = 0))"
proof -
  have dist: "components (distDir wd) = working_directory wd @ [''dist'']"
    and html: "components (htmlPath wd) = (working_directory wd @ [''dist'']) @ [''index.html'']"
    by (simp_all add: script_components)
  have below: "walk fs (components (htmlPath wd)) =
      (case walk fs (components (distDir wd)) of
         Inl e \<Rightarrow> Inl e
       | Inr n \<Rightarrow> walk n [''index.html''])"
    unfolding html dist by (rule walk_append)
  have plain: ?thesis if f: "walk fs (components (distDir wd)) = Inr File"
  proof -
    have d: "access_result fs (distDir wd) = Inr ()"
      using f by (simp add: access_result_def)
    have h: "access_result fs (htmlPath wd) = Inl ENOTDIR"
      using f below by (simp add: access_result_def)
    have "walk fs (components (htmlPath wd)) \<noteq> Inr (Dir r x entries)"
      using f below by simp
    moreover have "fst (ensureExists (distDir wd) ''dist directory'' (start fs wd)) = Inr ()"
      using d by (simp add: ensureExists_passes start_def)
    ultimately show ?thesis
      using h f by (simp add: start_no_html [OF d h] exit_status_def)
  qed
  have other: ?thesis if nf: "walk fs (components (distDir wd)) \<noteq> Inr File"
  proof (cases "walk fs (components (htmlPath wd)) = Inr (Dir r x entries)")
    case False
    then show ?thesis using nf by simp
  next
    case True
    then obtain n where n: "walk fs (components (distDir wd)) = Inr n"
      using below by (cases "walk fs (components (distDir wd))") simp_all
    have d: "access_result fs (distDir wd) = Inr ()"
      using n by (simp add: access_result_def)
    have h: "access_result fs (htmlPath wd) = Inr ()"
      using True by (simp add: access_result_def)
    have reads: "Readdir (assetsDir wd) \<in> set (calls (run (start fs wd)))"
      by (cases "list_ex (\<lambda>file. endsWith file ''.js'') (assets_listing fs wd)")
         (simp_all add: start_passed [OF d h] start_no_js [OF d h])
    have passes: "exit_status (run (start fs wd)) = 0"
      if "list_ex (\<lambda>file. endsWith file ''.js'') (assets_listing fs wd)"
      using that by (simp add: start_passed [OF d h] exit_status_def)
    have checks: "fst (ensureExists (distDir wd) ''dist directory'' (start fs wd)) = Inr ()"
      "fst (ensureExists (htmlPath wd) ''dist/index.html'' (start fs wd)) = Inr ()"
      using d h by (simp_all add: ensureExists_passes start_def)
    show ?thesis
      using nf checks reads passes by simp
  qed
  show ?thesis using plain other by blast
qed

theorem C10_index_html_directory:
  "walk dist_is_file (components (distDir ''/w'')) = Inr File \<and>
   fst (ensureExists (distDir ''/w'') ''dist directory'' (start dist_is_file ''/w'')) = Inr () \<and>
   stderr (run (start dist_is_file ''/w'')) = [''Missing dist/index.html at /w/dist/index.html''] \<and>
   walk html_is_directory (components (htmlPath ''/w'')) = Inr (Dir True True []) \<and>
   fst (ensureExists (htmlPath ''/w'') ''dist/index.html'' (start html_is_directory ''/w'')) = Inr () \<and>
   exit_status (run (start html_is_directory ''/w'')) = 0"
proof -
  have w: "''/w'' \<noteq> []" "hd ''/w'' = CHR ''/''" by simp_all
  have f: "walk dist_is_file (components (distDir ''/w'')) = Inr File" by code_simp
  have g: "walk html_is_directory (components (htmlPath ''/w'')) = Inr (Dir True True [])"
    by code_simp
  have j: "list_ex (\<lambda>file. endsWith file ''.js'') (assets_listing html_is_directory ''/w'')"
    by code_simp
  have p: "htmlPath ''/w'' = ''/w/dist/index.html''" by code_simp
  have one: "fst (ensureExists (distDir ''/w'') ''dist directory'' (start dist_is_file ''/w'')) = Inr () \<and>
      stderr (run (start dist_is_file ''/w'')) = [''Missing dist/index.html at /w/dist/index.html'']"
    using C10_existence_checks_ignore_kind [OF w, of dist_is_file] f p by simp
  have two: "fst (ensureExists (htmlPath ''/w'') ''dist/index.html'' (start html_is_directory ''/w'')) = Inr () \<and>
      exit_status (run (start html_is_directory ''/w'')) = 0"
    using C10_existence_checks_ignore_kind [OF w, of html_is_directory True True "[]"] g j by simp
  show ?thesis using f g one two by simp
qed

text \<open>
  With a plain file in the place of \<^verbatim>\<open>dist\<close> the run does not get as far as the assets
  directory: the first check passes, the second fails, and the status is 1.
\<close>

theorem C10_dist_file_never_reaches_assets:
  "walk dist_is_file (components (distDir ''/w'')) = Inr File \<and>
   fst (ensureExists (distDir ''/w'') ''dist directory'' (start dist_is_file ''/w'')) = Inr () \<and>
   Readdir (assetsDir ''/w'') \<notin> set (calls (run (start dist_is_file ''/w''))) \<and>
   stderr (run (start dist_is_file ''/w'')) = [''Missing dist/index.html at /w/dist/index.html''] \<and>
   exit_status (run (start dist_is_file ''/w'')) = 1"
proof -
  have a: "walk dist_is_file (components (distDir ''/w'')) = Inr File" by code_simp
  have b: "fst (ensureExists (distDir ''/w'') ''dist directory'' (start dist_is_file ''/w'')) = Inr ()"
    by code_simp
  have c: "Readdir (assetsDir ''/w'') \<notin> set (calls (run (start dist_is_file ''/w'')))"
    by code_simp
  have d: "stderr (run (start dist_is_file ''/w'')) = [''Missing dist/index.html at /w/dist/index.html'']"
    by code_simp
  have e: "exit_status (run (start dist_is_file ''/w'')) = 1" by code_simp
  show ?thesis using a b c d e by simp
qed

end
